theory Spec2Isabelle
  imports Main "HOL-Library.Sublist"
begin

section \<open>The operating system as the scripts see it\<close>

text \<open>
  The three scripts (\<^verbatim>\<open>scripts/install_conda.py\<close>, \<^verbatim>\<open>scripts/setup_conda.py\<close>,
  \<^verbatim>\<open>bin/install_requirements.py\<close>) do nothing but test paths, run external commands,
  download one file and write a few text files. The model threads a \<open>world\<close> through every
  function: the regular files (a map from path to content), the ordered trace of every
  interaction with the operating system, and the lines printed. What the outside does
  (an external process, the download, the JSON parser) is a parameter, \<open>os_env\<close>.

  Modelling conventions:
  \<^item> a path is its text; \<open>Path / name\<close> is textual joining with one slash;
  \<^item> only regular files are modelled, so \<open>exists\<close> is membership in the file map, and
    reading, writing or appending a modelled file does not fail;
  \<^item> a Python exception is a value of \<open>error\<close>, raised as \<open>Inl\<close>.
\<close>

type_synonym path = string

datatype cmd = Shell string | Argv "string list"

datatype error =
    RuntimeError string
  | ValueError string
  | FileNotFoundError string
  | TypeError string
  | CalledProcessError int cmd
  | TimeoutExpired cmd
  | JSONDecodeError string

record completed =
  returncode :: int
  stdout :: string
  stderr :: string

datatype proc = Exited completed | NotFound | TimedOut

datatype event =
    Stat path
  | Run cmd
  | Fetch string path
  | Chmod path nat
  | Unlink path
  | ReadFile path
  | WriteFile path string
  | AppendFile path string

datatype stream = Stdout | Stderr

type_synonym fs = "path \<rightharpoonup> string"

record env_packages =
  conda :: "string list"
  pip :: "string list"

record env_config =
  python :: string
  packages :: env_packages
  channels :: "string list"

text \<open>The configuration is a dict with the key \<open>environments\<close>, itself a dict from
  environment name to descriptor: an association list with distinct keys, in file order.\<close>

record configuration =
  environments :: "(string \<times> env_config) list"

text \<open>
  \<open>home\<close> is the value of \<open>HOME\<close>; \<open>root\<close> is \<open>Path(__file__).parent.parent\<close> of the
  setup script; \<open>spawn\<close> is what an external command does to the files and how it ends
  (\<open>TimedOut\<close> only when a timeout is given, \<open>NotFound\<close> when the executable is missing);
  \<open>fetch\<close> is the remote content of a URL or the text of the error;
  \<open>json_load\<close> parses a configuration file.
\<close>

record os_env =
  home :: path
  root :: path
  spawn :: "cmd \<Rightarrow> nat option \<Rightarrow> fs \<Rightarrow> proc \<times> fs"
  fetch :: "string \<Rightarrow> string + string"
  json_load :: "string \<Rightarrow> error + configuration"

record world =
  files :: fs
  trace :: "event list"
  printed :: "(stream \<times> string) list"

definition newline :: char where
  "newline = CHR 0x0A"

definition dquote :: char where
  "dquote = CHR 0x22"

definition squote :: char where
  "squote = CHR 0x27"

definition print :: "string \<Rightarrow> world \<Rightarrow> world" where
  "print s w = w\<lparr>printed := printed w @ [(Stdout, s)]\<rparr>"

definition eprint :: "string \<Rightarrow> world \<Rightarrow> world" where
  "eprint s w = w\<lparr>printed := printed w @ [(Stderr, s)]\<rparr>"

definition record_event :: "event \<Rightarrow> world \<Rightarrow> world" where
  "record_event e w = w\<lparr>trace := trace w @ [e]\<rparr>"

text \<open>\<open>os.path.exists\<close> and \<open>Path.exists\<close>.\<close>

definition path_exists :: "path \<Rightarrow> world \<Rightarrow> bool \<times> world" where
  "path_exists p w = (files w p \<noteq> None, record_event (Stat p) w)"

text \<open>\<open>subprocess.run\<close>: the command is logged, the process changes the files.\<close>

definition subprocess_run :: "os_env \<Rightarrow> cmd \<Rightarrow> nat option \<Rightarrow> world \<Rightarrow> proc \<times> world" where
  "subprocess_run env c timeout w =
     (let (r, f') = spawn env c timeout (files w)
      in (r, (record_event (Run c) w)\<lparr>files := f'\<rparr>))"

definition write_file :: "path \<Rightarrow> string \<Rightarrow> world \<Rightarrow> world" where
  "write_file p s w = (record_event (WriteFile p s) w)\<lparr>files := (files w)(p \<mapsto> s)\<rparr>"

definition append_file :: "path \<Rightarrow> string \<Rightarrow> world \<Rightarrow> world" where
  "append_file p s w =
     (record_event (AppendFile p s) w)
       \<lparr>files := (files w)(p \<mapsto> (case files w p of None \<Rightarrow> s | Some c \<Rightarrow> c @ s))\<rparr>"

text \<open>Python's \<open>a in b\<close> on strings: \<open>a\<close> occurs in \<open>b\<close> as a contiguous substring.\<close>

fun str_in :: "string \<Rightarrow> string \<Rightarrow> bool" where
  "str_in s [] = (s = [])"
| "str_in s (c # cs) = (prefix s (c # cs) \<or> str_in s cs)"

text \<open>\<open>" ".join(xs)\<close>.\<close>

fun join_space :: "string list \<Rightarrow> string" where
  "join_space [] = []"
| "join_space [x] = x"
| "join_space (x # y # ys) = x @ '' '' @ join_space (y # ys)"

text \<open>\<open>str(n)\<close> for an integer.\<close>

fun str_nat :: "nat \<Rightarrow> string" where
  "str_nat n =
     (if n < 10 then [char_of (48 + n)]
      else str_nat (n div 10) @ [char_of (48 + n mod 10)])"

definition str_int :: "int \<Rightarrow> string" where
  "str_int i = (if i < 0 then ''-'' @ str_nat (nat (- i)) else str_nat (nat i))"

text \<open>
  \<open>os.path.expanduser\<close> for the forms the scripts use, \<open>~\<close> and \<open>~/rest\<close>: the home
  directory without trailing slashes replaces the tilde. A path that does not start with
  a tilde is returned as it is; so is \<open>~user/rest\<close>, as Python does for an unknown user.
\<close>

definition rstrip_slash :: "string \<Rightarrow> string" where
  "rstrip_slash s = rev (dropWhile (\<lambda>c. c = CHR ''/'') (rev s))"

definition expanduser :: "os_env \<Rightarrow> path \<Rightarrow> path" where
  "expanduser env p =
     (if p = ''~'' \<or> take 2 p = ''~/'' then
        (let r = rstrip_slash (home env) @ drop 1 p in if r = [] then ''/'' else r)
      else p)"

text \<open>\<open>Path.home()\<close> is \<open>expanduser("~")\<close>.\<close>

definition path_home :: "os_env \<Rightarrow> path" where
  "path_home env = expanduser env ''~''"

definition pjoin :: "path \<Rightarrow> string \<Rightarrow> path" where
  "pjoin p q = (if p = ''/'' then p @ q else p @ ''/'' @ q)"

text \<open>
  The loop shared by both \<open>find_conda_path\<close> methods and by the interpreter search of
  \<open>install_requirements\<close>: expand each candidate, test it, stop at the first that exists.
\<close>

fun first_existing :: "os_env \<Rightarrow> path list \<Rightarrow> world \<Rightarrow> path option \<times> world" where
  "first_existing env [] w = (None, w)"
| "first_existing env (p # ps) w =
     (let expanded_path = expanduser env p;
          (found, w') = path_exists expanded_path w
      in if found then (Some expanded_path, w') else first_existing env ps w')"

text \<open>
  \<open>str(e)\<close> of an exception. For \<open>CalledProcessError\<close> the command is shown as its text
  (an argument list as its words joined by spaces, where Python prints the list's repr),
  and a negative return code by its number (where Python names the signal).
\<close>

fun cmd_text :: "cmd \<Rightarrow> string" where
  "cmd_text (Shell s) = s"
| "cmd_text (Argv xs) = join_space xs"

fun str_error :: "error \<Rightarrow> string" where
  "str_error (RuntimeError m) = m"
| "str_error (ValueError m) = m"
| "str_error (FileNotFoundError m) = m"
| "str_error (TypeError m) = m"
| "str_error (CalledProcessError rc c) =
     ''Command '' @ [squote] @ cmd_text c @ [squote] @ '' returned non-zero exit status ''
       @ str_int rc @ ''.''"
| "str_error (TimeoutExpired c) = ''Command '' @ [squote] @ cmd_text c @ [squote] @ '' timed out''"
| "str_error (JSONDecodeError m) = m"

section \<open>scripts/install_conda.py\<close>

record CondaInstaller =
  system :: string
  machine :: string

text \<open>The command of the presence check, \<open>["conda", "--version"]\<close>, run with a timeout of
  ten seconds.\<close>

definition version_probe :: cmd where
  "version_probe = Argv [''conda'', ''--version'']"

definition CondaInstaller_check_conda_installed :: "os_env \<Rightarrow> world \<Rightarrow> bool \<times> world" where
  "CondaInstaller_check_conda_installed env w =
     (let (result, w') = subprocess_run env version_probe (Some 10) w
      in case result of
           Exited r \<Rightarrow> (returncode r = 0, w')
         | NotFound \<Rightarrow> (False, w')
         | TimedOut \<Rightarrow> (False, w'))"

definition installer_possible_paths :: "path list" where
  "installer_possible_paths =
     [''~/miniconda3/etc/profile.d/conda.sh'',
      ''~/anaconda3/etc/profile.d/conda.sh'',
      ''/opt/conda/etc/profile.d/conda.sh'',
      ''/usr/local/conda/etc/profile.d/conda.sh'',
      ''/opt/miniconda3/etc/profile.d/conda.sh'',
      ''/opt/anaconda3/etc/profile.d/conda.sh'']"

definition CondaInstaller_find_conda_path :: "os_env \<Rightarrow> world \<Rightarrow> path option \<times> world" where
  "CondaInstaller_find_conda_path env w = first_existing env installer_possible_paths w"

definition base_url :: string where
  "base_url = ''https://repo.anaconda.com''"

text \<open>The final \<open>raise RuntimeError(f"Unsupported system: ...")\<close>: the spec's
  \<open>UnsupportedPlatform\<close>.\<close>

definition UnsupportedPlatform :: "CondaInstaller \<Rightarrow> error" where
  "UnsupportedPlatform self =
     RuntimeError (''Unsupported system: '' @ system self @ '' '' @ machine self)"

definition get_download_url :: "CondaInstaller \<Rightarrow> string \<Rightarrow> error + string" where
  "get_download_url self installer_type =
     (if installer_type = ''miniconda'' then
        (if system self = ''linux'' then
           (if str_in ''x86_64'' (machine self) \<or> str_in ''amd64'' (machine self) then
              Inr (base_url @ ''/miniconda/Miniconda3-latest-Linux-x86_64.sh'')
            else if str_in ''aarch64'' (machine self) \<or> str_in ''arm64'' (machine self) then
              Inr (base_url @ ''/miniconda/Miniconda3-latest-Linux-aarch64.sh'')
            else Inl (UnsupportedPlatform self))
         else if system self = ''darwin'' then
           (if str_in ''x86_64'' (machine self) then
              Inr (base_url @ ''/miniconda/Miniconda3-latest-MacOSX-x86_64.sh'')
            else if str_in ''arm64'' (machine self) \<or> str_in ''aarch64'' (machine self) then
              Inr (base_url @ ''/miniconda/Miniconda3-latest-MacOSX-arm64.sh'')
            else Inl (UnsupportedPlatform self))
         else Inl (UnsupportedPlatform self))
      else if installer_type = ''anaconda'' then
        (if system self = ''linux'' then
           (if str_in ''x86_64'' (machine self) \<or> str_in ''amd64'' (machine self) then
              Inr (base_url @ ''/archive/Anaconda3-2023.09-0-Linux-x86_64.sh'')
            else if str_in ''aarch64'' (machine self) \<or> str_in ''arm64'' (machine self) then
              Inr (base_url @ ''/archive/Anaconda3-2023.09-0-Linux-aarch64.sh'')
            else Inl (UnsupportedPlatform self))
         else if system self = ''darwin'' then
           (if str_in ''x86_64'' (machine self) then
              Inr (base_url @ ''/archive/Anaconda3-2023.09-0-MacOSX-x86_64.sh'')
            else if str_in ''arm64'' (machine self) \<or> str_in ''aarch64'' (machine self) then
              Inr (base_url @ ''/archive/Anaconda3-2023.09-0-MacOSX-arm64.sh'')
            else Inl (UnsupportedPlatform self))
         else Inl (UnsupportedPlatform self))
      else Inl (UnsupportedPlatform self))"

definition download_installer ::
  "os_env \<Rightarrow> string \<Rightarrow> string \<Rightarrow> world \<Rightarrow> path option \<times> world" where
  "download_installer env url installer_type w =
     (let installer_name = installer_type @ ''_installer.sh'';
          installer_path = pjoin (path_home env) installer_name;
          w1 = print (''Downloading '' @ installer_type @ '' installer...'') w;
          w2 = print (''URL: '' @ url) w1;
          w3 = record_event (Fetch url installer_path) w2
      in case fetch env url of
           Inr body \<Rightarrow>
             (Some installer_path,
              print (''Downloaded to: '' @ installer_path)
                (w3\<lparr>files := (files w3)(installer_path \<mapsto> body)\<rparr>))
         | Inl e \<Rightarrow> (None, print (''Error downloading installer: '' @ e) w3))"

text \<open>
  \<open>install_dir\<close> comes from the command line as a string or is absent; the method
  returns it as it is, or the \<open>Path\<close> \<open>~/miniconda3\<close> it built. The caller applies
  \<open>/\<close> to the result, which a string does not support, so the two are told apart.
\<close>

datatype pathish = AsPath path | AsStr string

fun pathish_str :: "pathish \<Rightarrow> string" where
  "pathish_str (AsPath p) = p"
| "pathish_str (AsStr s) = s"

text \<open>Truth value of the object: a \<open>Path\<close> is always true, a string when not empty.\<close>

fun truthy :: "pathish \<Rightarrow> bool" where
  "truthy (AsPath p) = True"
| "truthy (AsStr s) = (s \<noteq> [])"

definition install_conda ::
  "os_env \<Rightarrow> path \<Rightarrow> string option \<Rightarrow> world \<Rightarrow> (error + pathish option) \<times> world" where
  "install_conda env installer_path install_dir_arg w =
     (let (present, w1) = path_exists installer_path w in
      if \<not> present then
        (Inl (FileNotFoundError (''Installer not found: '' @ installer_path)), w1)
      else
        (let install_dir =
               (case install_dir_arg of
                  None \<Rightarrow> AsPath (pjoin (path_home env) ''miniconda3'')
                | Some d \<Rightarrow> AsStr d);
             w2 = print (''Installing conda to: '' @ pathish_str install_dir) w1;
             w3 = record_event (Chmod installer_path 493) w2;
             install_cmd =
               ''bash '' @ installer_path @ '' -b -p '' @ pathish_str install_dir;
             w4 = print (''Running: '' @ install_cmd) w3;
             (result, w5) = subprocess_run env (Shell install_cmd) None w4
         in case result of
              NotFound \<Rightarrow> (Inl (FileNotFoundError install_cmd), w5)
            | TimedOut \<Rightarrow> (Inl (TimeoutExpired (Shell install_cmd)), w5)
            | Exited r \<Rightarrow>
                if returncode r \<noteq> 0 then
                  (Inr None,
                   print (''Error during installation: ''
                            @ str_error (CalledProcessError (returncode r) (Shell install_cmd)))
                     w5)
                else
                  (let w6 = print ''Conda installation completed successfully!'' w5 in
                   if files w6 installer_path = None then
                     (Inl (FileNotFoundError installer_path), w6)
                   else
                     (let w7 = (record_event (Unlink installer_path) w6)
                                 \<lparr>files := (files w6)(installer_path := None)\<rparr>;
                          w8 = print (''Cleaned up installer: '' @ installer_path) w7
                      in (Inr (Some install_dir), w8)))))"

text \<open>
  The two blocks of \<open>setup_shell_integration\<close>, one for \<open>.bashrc\<close> and one for
  \<open>.zshrc\<close>, are the same code on two files: \<open>add_to_rc\<close> is that block, with the
  startup file and its name as parameters.
\<close>

definition conda_sh_path :: "path \<Rightarrow> path" where
  "conda_sh_path conda_path = pjoin (pjoin (pjoin conda_path ''etc'') ''profile.d'') ''conda.sh''"

definition bashrc_path :: "os_env \<Rightarrow> path" where
  "bashrc_path env = pjoin (path_home env) ''.bashrc''"

definition zshrc_path :: "os_env \<Rightarrow> path" where
  "zshrc_path env = pjoin (path_home env) ''.zshrc''"

definition conda_init_line :: "path \<Rightarrow> string" where
  "conda_init_line conda_sh = ''source '' @ [dquote] @ conda_sh @ [dquote]"

definition init_block :: "string \<Rightarrow> string" where
  "init_block line = [newline] @ ''# Conda initialization'' @ [newline] @ line @ [newline]"

definition add_to_rc :: "path \<Rightarrow> string \<Rightarrow> path \<Rightarrow> world \<Rightarrow> world" where
  "add_to_rc rc rc_name conda_sh w =
     (let (present, w1) = path_exists rc w in
      if present then
        (let line = conda_init_line conda_sh;
             w2 = record_event (ReadFile rc) w1;
             content = (case files w2 rc of None \<Rightarrow> [] | Some c \<Rightarrow> c)
         in if \<not> str_in line content then
              print (''Added conda initialization to '' @ rc_name)
                (append_file rc (init_block line) w2)
            else w2)
      else w1)"

definition setup_shell_integration ::
  "os_env \<Rightarrow> pathish \<Rightarrow> world \<Rightarrow> (error + bool) \<times> world" where
  "setup_shell_integration env conda_path w =
     (case conda_path of
        AsStr s \<Rightarrow> (Inl (TypeError ''unsupported operand type(s) for /''), w)
      | AsPath p \<Rightarrow>
          (let conda_sh = conda_sh_path p;
               (present, w1) = path_exists conda_sh w
           in if \<not> present then
                (Inr False,
                 print ''Warning: conda.sh not found, shell integration may not work'' w1)
              else
                (let bashrc = bashrc_path env;
                     w2 = add_to_rc bashrc ''.bashrc'' conda_sh w1;
                     zshrc = zshrc_path env;
                     w3 = add_to_rc zshrc ''.zshrc'' conda_sh w2
                 in (Inr True, w3))))"

text \<open>The body of the \<open>try\<close> block of \<open>install\<close>.\<close>

definition install_steps ::
  "os_env \<Rightarrow> CondaInstaller \<Rightarrow> string \<Rightarrow> string option \<Rightarrow> world \<Rightarrow> (error + bool) \<times> world" where
  "install_steps env self installer_type install_dir w =
     (case get_download_url self installer_type of
        Inl e \<Rightarrow> (Inl e, w)
      | Inr url \<Rightarrow>
          (let (installer_path, w1) = download_installer env url installer_type w in
           case installer_path of
             None \<Rightarrow> (Inr False, w1)
           | Some ip \<Rightarrow>
               (case install_conda env ip install_dir w1 of
                  (Inl e, w2) \<Rightarrow> (Inl e, w2)
                | (Inr None, w2) \<Rightarrow> (Inr False, w2)
                | (Inr (Some conda_path), w2) \<Rightarrow>
                    if \<not> truthy conda_path then (Inr False, w2)
                    else
                      (case setup_shell_integration env conda_path w2 of
                         (Inl e, w3) \<Rightarrow> (Inl e, w3)
                       | (Inr _, w3) \<Rightarrow>
                           (Inr True,
                            foldl (\<lambda>v s. print s v) w3
                              [[newline] @ replicate 50 (CHR ''=''),
                               ''Conda installation completed!'',
                               replicate 50 (CHR ''=''),
                               ''Installation directory: '' @ pathish_str conda_path,
                               ''Conda script: '' @ pathish_str conda_path
                                  @ ''/etc/profile.d/conda.sh'',
                               [newline] @ ''To use conda, either:'',
                               ''1. Restart your terminal'',
                               ''2. Run: source ~/.bashrc (or ~/.zshrc)'',
                               ''3. Or manually source: source {conda_path}/etc/profile.d/conda.sh'',
                               [newline] @ ''Then you can run: conda --version''])))))"

definition install ::
  "os_env \<Rightarrow> CondaInstaller \<Rightarrow> string \<Rightarrow> string option \<Rightarrow> world \<Rightarrow> bool \<times> world" where
  "install env self installer_type install_dir w =
     (let w0 = print ''Checking conda installation...'' w;
          (callable, w1) = CondaInstaller_check_conda_installed env w0
      in if callable then (True, print ''Conda is already installed and accessible!'' w1)
         else
           (let (existing_path, w2) = CondaInstaller_find_conda_path env w1 in
            case existing_path of
              Some ep \<Rightarrow>
                (True,
                 print ''You may need to add it to your PATH or source it manually.''
                   (print (''Found existing conda installation: '' @ ep) w2))
            | None \<Rightarrow>
                (let w3 = print (''Installing '' @ installer_type @ ''...'') w2 in
                 case install_steps env self installer_type install_dir w3 of
                   (Inl e, w4) \<Rightarrow>
                     (False, print (''Error during installation: '' @ str_error e) w4)
                 | (Inr ok, w4) \<Rightarrow> (ok, w4))))"

section \<open>scripts/setup_conda.py\<close>

record CondaSetup =
  config_file :: string
  config :: configuration

definition torch_conda_packages :: "string list" where
  "torch_conda_packages =
     [''pytorch'', ''torchvision'', ''torchaudio'', ''pytorch-cuda=11.8'',
      ''numpy'', ''pandas'', ''matplotlib'', ''jupyter'']"

definition torch_pip_packages :: "string list" where
  "torch_pip_packages =
     [''transformers'', ''datasets'', ''accelerate'', ''wandb'',
      ''tensorboard'', ''scikit-learn'', ''seaborn'']"

text \<open>The built-in configuration; both environments list the same packages.\<close>

definition default_config :: configuration where
  "default_config =
     \<lparr>environments =
        [(''torchpy310'',
          \<lparr>python = ''3.10'',
           packages = \<lparr>conda = torch_conda_packages, pip = torch_pip_packages\<rparr>,
           channels = [''pytorch'', ''nvidia'', ''conda-forge'']\<rparr>),
         (''torchpy311'',
          \<lparr>python = ''3.11'',
           packages = \<lparr>conda = torch_conda_packages, pip = torch_pip_packages\<rparr>,
           channels = [''pytorch'', ''nvidia'', ''conda-forge'']\<rparr>)]\<rparr>"

definition load_config :: "os_env \<Rightarrow> string \<Rightarrow> world \<Rightarrow> (error + configuration) \<times> world" where
  "load_config env cfile w =
     (let config_path = pjoin (root env) cfile;
          (present, w1) = path_exists config_path w
      in if present then
           (let w2 = record_event (ReadFile config_path) w1
            in (json_load env (case files w2 config_path of None \<Rightarrow> [] | Some c \<Rightarrow> c), w2))
         else (Inr default_config, w1))"

text \<open>\<open>CondaSetup.__init__\<close>.\<close>

definition CondaSetup_init :: "os_env \<Rightarrow> string \<Rightarrow> world \<Rightarrow> (error + CondaSetup) \<times> world" where
  "CondaSetup_init env cfile w =
     (case load_config env cfile w of
        (Inl e, w') \<Rightarrow> (Inl e, w')
      | (Inr c, w') \<Rightarrow> (Inr \<lparr>config_file = cfile, config = c\<rparr>, w'))"

text \<open>The two prints of \<open>run_command\<close>: the captured standard output, then the
  captured standard error on the error stream, each when not empty.\<close>

definition echo_output :: "completed \<Rightarrow> world \<Rightarrow> world" where
  "echo_output r w =
     (let w2 = (if stdout r \<noteq> [] then print (stdout r) w else w);
          w3 = (if stderr r \<noteq> [] then eprint (stderr r) w2 else w2)
      in w3)"

definition run_command ::
  "os_env \<Rightarrow> string \<Rightarrow> bool \<Rightarrow> world \<Rightarrow> (error + completed) \<times> world" where
  "run_command env command check w =
     (let w0 = print (''Running: '' @ command) w;
          (result, w1) = subprocess_run env (Shell command) None w0
      in case result of
           NotFound \<Rightarrow> (Inl (FileNotFoundError command), w1)
         | TimedOut \<Rightarrow> (Inl (TimeoutExpired (Shell command)), w1)
         | Exited r \<Rightarrow>
             (let w3 = echo_output r w1
              in if check \<and> returncode r \<noteq> 0 then
                   (Inl (CalledProcessError (returncode r) (Shell command)), w3)
                 else (Inr r, w3)))"

definition CondaSetup_check_conda_installed :: "os_env \<Rightarrow> world \<Rightarrow> (error + bool) \<times> world" where
  "CondaSetup_check_conda_installed env w =
     (case run_command env ''conda --version'' True w of
        (Inr r, w') \<Rightarrow> (Inr True, w')
      | (Inl (CalledProcessError rc c), w') \<Rightarrow> (Inr False, w')
      | (Inl (FileNotFoundError m), w') \<Rightarrow> (Inr False, w')
      | (Inl e, w') \<Rightarrow> (Inl e, w'))"

definition setup_possible_paths :: "path list" where
  "setup_possible_paths =
     [''~/miniconda3/etc/profile.d/conda.sh'',
      ''~/anaconda3/etc/profile.d/conda.sh'',
      ''/opt/conda/etc/profile.d/conda.sh'',
      ''/usr/local/conda/etc/profile.d/conda.sh'']"

definition CondaSetup_find_conda_path :: "os_env \<Rightarrow> world \<Rightarrow> path option \<times> world" where
  "CondaSetup_find_conda_path env w = first_existing env setup_possible_paths w"

definition create_cmd :: "string \<Rightarrow> env_config \<Rightarrow> string" where
  "create_cmd env_name ec =
     ''conda create -n '' @ env_name @ '' python='' @ python ec @ '' -y''"

definition conda_install_cmd :: "string \<Rightarrow> env_config \<Rightarrow> string" where
  "conda_install_cmd env_name ec =
     (let conda_packages = join_space (conda (packages ec));
          chans = join_space (map (\<lambda>channel. ''-c '' @ channel) (channels ec))
      in ''conda install -n '' @ env_name @ '' '' @ conda_packages @ '' '' @ chans @ '' -y'')"

definition pip_install_cmd :: "string \<Rightarrow> env_config \<Rightarrow> string" where
  "pip_install_cmd env_name ec =
     (let pip_packages = join_space (pip (packages ec))
      in ''conda run -n '' @ env_name @ '' pip install '' @ pip_packages)"

text \<open>The \<open>ValueError\<close> of \<open>setup_environment\<close>: the spec's \<open>UnknownEnvironment\<close>.\<close>

definition UnknownEnvironment :: "string \<Rightarrow> error" where
  "UnknownEnvironment env_name =
     ValueError (''Environment '' @ [squote] @ env_name @ [squote]
                   @ '' not found in configuration'')"

text \<open>The two guarded installs of \<open>setup_environment\<close>; an empty list is false.\<close>

definition install_conda_packages ::
  "os_env \<Rightarrow> string \<Rightarrow> env_config \<Rightarrow> world \<Rightarrow> (error + unit) \<times> world" where
  "install_conda_packages env env_name ec w =
     (if conda (packages ec) \<noteq> [] then
        (case run_command env (conda_install_cmd env_name ec) True w of
           (Inl e, w') \<Rightarrow> (Inl e, w')
         | (Inr r, w') \<Rightarrow> (Inr (), w'))
      else (Inr (), w))"

definition install_pip_packages ::
  "os_env \<Rightarrow> string \<Rightarrow> env_config \<Rightarrow> world \<Rightarrow> (error + unit) \<times> world" where
  "install_pip_packages env env_name ec w =
     (if pip (packages ec) \<noteq> [] then
        (case run_command env (pip_install_cmd env_name ec) True w of
           (Inl e, w') \<Rightarrow> (Inl e, w')
         | (Inr r, w') \<Rightarrow> (Inr (), w'))
      else (Inr (), w))"

definition setup_environment ::
  "os_env \<Rightarrow> CondaSetup \<Rightarrow> string \<Rightarrow> world \<Rightarrow> (error + unit) \<times> world" where
  "setup_environment env self env_name w =
     (case map_of (environments (config self)) env_name of
        None \<Rightarrow>
          (Inl (UnknownEnvironment env_name), w)
      | Some ec \<Rightarrow>
          (let w1 = print (''Setting up environment: '' @ env_name) w;
               w2 = print (''Python version: '' @ python ec) w1
           in case run_command env (create_cmd env_name ec) True w2 of
                (Inl e, w3) \<Rightarrow> (Inl e, w3)
              | (Inr r, w3) \<Rightarrow>
                  (let (conda_path, w4) = CondaSetup_find_conda_path env w3 in
                   case conda_path of
                     None \<Rightarrow>
                       (Inl (RuntimeError ''Conda not found. Please install conda first.''), w4)
                   | Some cp \<Rightarrow>
                       (case install_conda_packages env env_name ec w4 of
                          (Inl e, w5) \<Rightarrow> (Inl e, w5)
                        | (Inr u, w5) \<Rightarrow>
                            (case install_pip_packages env env_name ec w5 of
                               (Inl e, w6) \<Rightarrow> (Inl e, w6)
                             | (Inr u', w6) \<Rightarrow>
                                 (Inr (),
                                  print (''Environment '' @ [squote] @ env_name @ [squote]
                                           @ '' setup complete!'') w6))))))"

definition list_environments :: "CondaSetup \<Rightarrow> world \<Rightarrow> world" where
  "list_environments self w =
     foldl (\<lambda>v (env_name, ec). print (''  - '' @ env_name @ '' (Python '' @ python ec @ '')'') v)
       (print ''Available environments:'' w) (environments (config self))"

definition script_content :: "string \<Rightarrow> path \<Rightarrow> string" where
  "script_content env_name conda_path =
     concat (map (\<lambda>l. l @ [newline])
       [''#!/bin/bash'',
        [],
        ''# Auto-generated activation script for '' @ env_name,
        ''# Generated by setup_conda.py'',
        [],
        ''# Source conda'',
        ''source '' @ conda_path,
        [],
        ''# Activate environment'',
        ''conda activate '' @ env_name,
        [],
        ''echo '' @ [dquote] @ ''Environment '' @ [squote] @ env_name @ [squote]
           @ '' activated!'' @ [dquote],
        ''echo '' @ [dquote] @ ''Python version: $(python --version)'' @ [dquote],
        ''echo '' @ [dquote] @ ''PyTorch version: $(python -c '' @ [squote]
           @ ''import torch; print(torch.__version__)'' @ [squote]
           @ '' 2>/dev/null || echo '' @ [squote] @ ''PyTorch not installed'' @ [squote]
           @ '')'' @ [dquote]])"

definition script_path :: "os_env \<Rightarrow> string \<Rightarrow> path" where
  "script_path env env_name = pjoin (root env) (''activate_'' @ env_name @ ''.sh'')"

definition create_activation_script ::
  "os_env \<Rightarrow> string \<Rightarrow> world \<Rightarrow> (error + unit) \<times> world" where
  "create_activation_script env env_name w =
     (let (conda_path, w1) = CondaSetup_find_conda_path env w in
      case conda_path of
        None \<Rightarrow> (Inl (RuntimeError ''Conda not found''), w1)
      | Some cp \<Rightarrow>
          (let w2 = write_file (script_path env env_name) (script_content env_name cp) w1;
               w3 = record_event (Chmod (script_path env env_name) 493) w2
           in (Inr (), print (''Activation script created: '' @ script_path env env_name) w3)))"

text \<open>
  How a run of a script ends: \<open>Exit n\<close> is \<open>sys.exit(n)\<close>, or falling off the end of
  \<open>main\<close> for \<open>n = 0\<close>; \<open>Uncaught e\<close> is an exception that no handler of the script
  catches and that leaves \<open>main\<close>.
\<close>

datatype outcome = Exit int | Uncaught error

datatype action = Setup | List | CreateScript

text \<open>The body of the \<open>try\<close> block of the \<open>setup\<close> action.\<close>

definition setup_action ::
  "os_env \<Rightarrow> CondaSetup \<Rightarrow> string \<Rightarrow> world \<Rightarrow> (error + unit) \<times> world" where
  "setup_action env self env_name w =
     (case setup_environment env self env_name w of
        (Inl e, w1) \<Rightarrow> (Inl e, w1)
      | (Inr u, w1) \<Rightarrow> create_activation_script env env_name w1)"

definition setup_conda_main ::
  "os_env \<Rightarrow> action \<Rightarrow> string \<Rightarrow> string \<Rightarrow> world \<Rightarrow> outcome \<times> world" where
  "setup_conda_main env act env_name cfile w =
     (case CondaSetup_init env cfile w of
        (Inl e, w1) \<Rightarrow> (Uncaught e, w1)
      | (Inr setup, w1) \<Rightarrow>
          (case CondaSetup_check_conda_installed env w1 of
             (Inl e, w2) \<Rightarrow> (Uncaught e, w2)
           | (Inr False, w2) \<Rightarrow>
               (Exit 1,
                print ''Please install conda first: https://docs.conda.io/en/latest/miniconda.html''
                  (print ''Error: conda is not installed or not in PATH'' w2))
           | (Inr True, w2) \<Rightarrow>
               (case act of
                  List \<Rightarrow> (Exit 0, list_environments setup w2)
                | Setup \<Rightarrow>
                    (case setup_action env setup env_name w2 of
                       (Inl e, w3) \<Rightarrow>
                         (Exit 1, print (''Error setting up environment: '' @ str_error e) w3)
                     | (Inr u, w3) \<Rightarrow> (Exit 0, w3))
                | CreateScript \<Rightarrow>
                    (case create_activation_script env env_name w2 of
                       (Inl e, w3) \<Rightarrow> (Uncaught e, w3)
                     | (Inr u, w3) \<Rightarrow> (Exit 0, w3)))))"

section \<open>bin/install_requirements.py\<close>

text \<open>The three symbols the script prints, as their UTF-8 bytes.\<close>

definition check_mark :: string where
  "check_mark = [CHR 0xE2, CHR 0x9C, CHR 0x85]"

definition cross_mark :: string where
  "cross_mark = [CHR 0xE2, CHR 0x9D, CHR 0x8C]"

definition party_popper :: string where
  "party_popper = [CHR 0xF0, CHR 0x9F, CHR 0x8E, CHR 0x89]"

text \<open>The list \<open>conda_paths\<close>: the first two entries are expanded where the list is built.\<close>

definition conda_paths :: "os_env \<Rightarrow> path list" where
  "conda_paths env =
     [expanduser env ''~/miniconda3/envs/torchpy310/bin/python'',
      expanduser env ''~/anaconda3/envs/torchpy310/bin/python'',
      ''/opt/conda/envs/torchpy310/bin/python'']"

text \<open>The interpreter: the one given, else the first candidate that exists, else
  \<open>python3\<close>.\<close>

definition resolve_python :: "os_env \<Rightarrow> string option \<Rightarrow> world \<Rightarrow> string \<times> world" where
  "resolve_python env python_path w =
     (case python_path of
        Some p \<Rightarrow> (p, w)
      | None \<Rightarrow>
          (let (found, w1) = first_existing env (conda_paths env) w in
           case found of
             Some p \<Rightarrow> (p, w1)
           | None \<Rightarrow> (''python3'', w1)))"

definition pip_cmd :: "string \<Rightarrow> string \<Rightarrow> cmd" where
  "pip_cmd python_path requirements_file =
     Argv [python_path, ''-m'', ''pip'', ''install'', ''-r'', requirements_file]"

definition install_requirements ::
  "os_env \<Rightarrow> string \<Rightarrow> string option \<Rightarrow> world \<Rightarrow> (error + bool) \<times> world" where
  "install_requirements env requirements_file python_arg w =
     (let (present, w1) = path_exists requirements_file w in
      if \<not> present then
        (Inr False, print (''Error: '' @ requirements_file @ '' not found!'') w1)
      else
        (let (python_path, w2) = resolve_python env python_arg w1;
             w3 = print (''Using Python: '' @ python_path) w2;
             w4 = print (''Installing from: '' @ requirements_file) w3;
             c = pip_cmd python_path requirements_file;
             (result, w5) = subprocess_run env c None w4
         in case result of
              NotFound \<Rightarrow> (Inl (FileNotFoundError python_path), w5)
            | TimedOut \<Rightarrow> (Inl (TimeoutExpired c), w5)
            | Exited r \<Rightarrow>
                if returncode r \<noteq> 0 then
                  (Inr False,
                   print (cross_mark @ '' Error installing requirements: ''
                            @ str_error (CalledProcessError (returncode r) c)) w5)
                else
                  (Inr True,
                   print (check_mark @ '' Requirements installed successfully!'') w5)))"

definition install_requirements_main ::
  "os_env \<Rightarrow> string \<Rightarrow> string option \<Rightarrow> world \<Rightarrow> outcome \<times> world" where
  "install_requirements_main env requirements_file python_arg w =
     (case install_requirements env requirements_file python_arg w of
        (Inl e, w1) \<Rightarrow> (Uncaught e, w1)
      | (Inr True, w1) \<Rightarrow>
          (Exit 0,
           foldl (\<lambda>v s. print s v) w1
             [[newline] @ party_popper @ '' Installation completed!'',
              ''You can now use the environment with:'',
              ''  python scripts/utils/test_gpu.py''])
      | (Inr False, w1) \<Rightarrow>
          (Exit 1, print ([newline] @ cross_mark @ '' Installation failed!'') w1))"

section \<open>Notions of the specification\<close>

text \<open>
  A well-formed HTTPS URL: the scheme \<open>https://\<close>, then a host that is not empty, and no
  blank or line break anywhere.
\<close>

definition well_formed_https_url :: "string \<Rightarrow> bool" where
  "well_formed_https_url u =
     (prefix ''https://'' u
      \<and> takeWhile (\<lambda>c. c \<noteq> CHR ''/'') (drop 8 u) \<noteq> []
      \<and> list_all (\<lambda>c. c \<noteq> CHR '' '' \<and> c \<noteq> newline) u)"

text \<open>
  The paths a first-match search tests, in order, on files \<open>f\<close>: every candidate up to
  and including the first that exists.
\<close>

fun probes :: "fs \<Rightarrow> path list \<Rightarrow> path list" where
  "probes f [] = []"
| "probes f (p # ps) = p # (if f p \<noteq> None then [] else probes f ps)"

text \<open>The external commands of a trace, in the order they were issued.\<close>

fun commands_run :: "event list \<Rightarrow> cmd list" where
  "commands_run [] = []"
| "commands_run (Run c # es) = c # commands_run es"
| "commands_run (e # es) = commands_run es"

text \<open>The events that change a file or its mode, or fetch one.\<close>

fun changes_files :: "event \<Rightarrow> bool" where
  "changes_files (Stat p) = False"
| "changes_files (ReadFile p) = False"
| "changes_files (Run c) = False"
| "changes_files e = True"

text \<open>
  What the shell-integration step makes of a startup file's content: unchanged when the
  source line occurs in it, else with the block that holds the line appended.
\<close>

definition append_once :: "string \<Rightarrow> string \<Rightarrow> string" where
  "append_once line content =
     (if str_in line content then content else content @ init_block line)"

text \<open>
  Concrete surroundings for the examples: a home directory and a repository root, with an
  outside where every command succeeds and touches no file (\<open>succeeding\<close>) or where no
  executable is found (\<open>missing\<close>); a download always fails and a configuration file
  parses to the built-in configuration.
\<close>

definition succeeding :: "cmd \<Rightarrow> nat option \<Rightarrow> fs \<Rightarrow> proc \<times> fs" where
  "succeeding c t f = (Exited \<lparr>returncode = 0, stdout = [], stderr = []\<rparr>, f)"


definition demo_env :: "(cmd \<Rightarrow> nat option \<Rightarrow> fs \<Rightarrow> proc \<times> fs) \<Rightarrow> os_env" where
  "demo_env sp =
     \<lparr>home = ''/home/user'', root = ''/repo'', spawn = sp,
      fetch = (\<lambda>u. Inl ''offline''), json_load = (\<lambda>s. Inr default_config)\<rparr>"

definition demo_world :: "fs \<Rightarrow> world" where
  "demo_world f = \<lparr>files = f, trace = [], printed = []\<rparr>"

text \<open>Four states: an installation under \<open>~/miniconda3\<close> and a \<open>.bashrc\<close> that does
  not mention conda; an installation under \<open>/opt/conda\<close>; a manifest and two of the three
  candidate interpreters; an installation under \<open>~/miniconda3\<close> and no startup file.\<close>

definition rc_world :: world where
  "rc_world = demo_world [''/home/user/miniconda3/etc/profile.d/conda.sh'' \<mapsto> ''# conda'',
                          ''/home/user/.bashrc'' \<mapsto> ''export A=1'']"

definition conda_world :: world where
  "conda_world = demo_world [''/opt/conda/etc/profile.d/conda.sh'' \<mapsto> ''# conda'']"

definition req_world :: world where
  "req_world = demo_world [''requirements.txt'' \<mapsto> ''numpy'',
                           ''/home/user/anaconda3/envs/torchpy310/bin/python'' \<mapsto> ''ELF'',
                           ''/opt/conda/envs/torchpy310/bin/python'' \<mapsto> ''ELF'']"

definition fresh_world :: world where
  "fresh_world = demo_world [''/home/user/miniconda3/etc/profile.d/conda.sh'' \<mapsto> ''# conda'']"

text \<open>The environment of the end-to-end scenario, and a \<open>CondaSetup\<close> whose
  configuration holds it alone.\<close>

definition envA_config :: env_config where
  "envA_config =
     \<lparr>python = ''3.10'',
      packages = \<lparr>conda = [''numpy''], pip = [''requests'']\<rparr>,
      channels = [''conda-forge'']\<rparr>"

definition envA_setup :: CondaSetup where
  "envA_setup =
     \<lparr>config_file = ''config/environments.json'',
      config = \<lparr>environments = [(''envA'', envA_config)]\<rparr>\<rparr>"

text \<open>
  The interpreter search in the specification's words: the candidates in their order,
  each as the loop tests it, and the interpreter chosen on files \<open>f\<close>: the one given,
  else the first candidate that exists, else \<open>python3\<close>.
\<close>

definition interpreter_candidates :: "os_env \<Rightarrow> path list" where
  "interpreter_candidates env = map (expanduser env) (conda_paths env)"

definition chosen_python :: "os_env \<Rightarrow> string option \<Rightarrow> fs \<Rightarrow> string" where
  "chosen_python env python_arg f =
     (case python_arg of
        Some p \<Rightarrow> p
      | None \<Rightarrow>
          (case find (\<lambda>c. f c \<noteq> None) (interpreter_candidates env) of
             Some c \<Rightarrow> c
           | None \<Rightarrow> ''python3''))"

text \<open>The machine string contains one of the given architecture names.\<close>

definition machine_mentions :: "CondaInstaller \<Rightarrow> string list \<Rightarrow> bool" where
  "machine_mentions self names = list_ex (\<lambda>n. str_in n (machine self)) names"

text \<open>
  The lookup table as \<open>get_download_url\<close> has it: the flavor and the system are compared
  for equality, the machine for containing an architecture name; on \<open>darwin\<close> the name
  \<open>amd64\<close> is not among them.
\<close>

definition has_table_entry :: "CondaInstaller \<Rightarrow> string \<Rightarrow> bool" where
  "has_table_entry self installer_type =
     ((installer_type = ''miniconda'' \<or> installer_type = ''anaconda'')
      \<and> (system self = ''linux''
            \<and> machine_mentions self [''x86_64'', ''amd64'', ''aarch64'', ''arm64'']
          \<or> system self = ''darwin''
            \<and> machine_mentions self [''x86_64'', ''arm64'', ''aarch64'']))"

text \<open>Another flavor, another system, or a machine string with none of the four names.\<close>

definition outside_table :: "CondaInstaller \<Rightarrow> string \<Rightarrow> bool" where
  "outside_table self installer_type =
     ((installer_type \<noteq> ''miniconda'' \<and> installer_type \<noteq> ''anaconda'')
      \<or> (system self \<noteq> ''linux'' \<and> system self \<noteq> ''darwin'')
      \<or> \<not> machine_mentions self [''x86_64'', ''amd64'', ''aarch64'', ''arm64''])"

section \<open>Substrings\<close>

lemma str_in_sublist: "str_in s t = sublist s t"
  by (induction t) (simp_all add: sublist_Cons_right)

lemma str_in_append: "str_in s (a @ s @ b)"
  by (simp add: str_in_sublist)

section \<open>The download URL\<close>

lemma url_of_entry:
  assumes "has_table_entry self installer_type"
  shows "\<exists>u. get_download_url self installer_type = Inr u \<and> u \<noteq> [] \<and> well_formed_https_url u"
  using assms
  unfolding has_table_entry_def machine_mentions_def get_download_url_def base_url_def
  by (auto simp: well_formed_https_url_def newline_def)

lemma raise_outside:
  assumes "outside_table self installer_type"
  shows "get_download_url self installer_type = Inl (UnsupportedPlatform self)"
  using assms
  unfolding outside_table_def machine_mentions_def get_download_url_def
  by auto

text \<open>
  C1, as the code has it. Where the triple has an entry in the table of
  \<open>get_download_url\<close> (flavor \<open>miniconda\<close> or \<open>anaconda\<close>; system \<open>linux\<close> with a machine
  string containing \<open>x86_64\<close>, \<open>amd64\<close>, \<open>aarch64\<close> or \<open>arm64\<close>, or system \<open>darwin\<close> with
  a machine string containing \<open>x86_64\<close>, \<open>arm64\<close> or \<open>aarch64\<close>), the result is a URL that
  is not empty and is a well-formed HTTPS URL. Where the flavor is another string, or the
  system is another string, or the machine string contains none of the four names, the
  call raises \<open>UnsupportedPlatform\<close>.
\<close>

theorem get_download_url_table:
  "(has_table_entry self installer_type \<longrightarrow>
      (\<exists>u. get_download_url self installer_type = Inr u \<and> u \<noteq> [] \<and> well_formed_https_url u))
   \<and> (outside_table self installer_type \<longrightarrow>
      get_download_url self installer_type = Inl (UnsupportedPlatform self))"
  using url_of_entry raise_outside by blast

theorem get_download_url_table_witness:
  "has_table_entry \<lparr>system = ''linux'', machine = ''x86_64''\<rparr> ''miniconda''
   \<and> (\<exists>u. get_download_url \<lparr>system = ''linux'', machine = ''x86_64''\<rparr> ''miniconda'' = Inr u
          \<and> u \<noteq> [] \<and> well_formed_https_url u)
   \<and> outside_table \<lparr>system = ''windows'', machine = ''amd64''\<rparr> ''miniconda''
   \<and> get_download_url \<lparr>system = ''windows'', machine = ''amd64''\<rparr> ''miniconda''
       = Inl (RuntimeError ''Unsupported system: windows amd64'')"
proof -
  have a: "has_table_entry \<lparr>system = ''linux'', machine = ''x86_64''\<rparr> ''miniconda''"
    by (simp add: has_table_entry_def machine_mentions_def)
  have b: "outside_table \<lparr>system = ''windows'', machine = ''amd64''\<rparr> ''miniconda''"
    by (simp add: outside_table_def)
  from a b
    get_download_url_table [of "\<lparr>system = ''linux'', machine = ''x86_64''\<rparr>" "''miniconda''"]
    get_download_url_table [of "\<lparr>system = ''windows'', machine = ''amd64''\<rparr>" "''miniconda''"]
  show ?thesis by (simp add: UnsupportedPlatform_def)
qed

text \<open>
  The claim as the specification words it fails twice: \<open>darwin\<close> with \<open>amd64\<close> is one of
  its table entries and raises, and the machine string \<open>x86_64h\<close> is none of its four
  machine strings and gets a URL.
\<close>

theorem get_download_url_table_counterexample:
  "get_download_url \<lparr>system = ''darwin'', machine = ''amd64''\<rparr> ''miniconda''
     = Inl (RuntimeError ''Unsupported system: darwin amd64'')
   \<and> get_download_url \<lparr>system = ''linux'', machine = ''x86_64h''\<rparr> ''miniconda''
     = Inr ''https://repo.anaconda.com/miniconda/Miniconda3-latest-Linux-x86_64.sh''"
  by (simp add: get_download_url_def UnsupportedPlatform_def base_url_def)

section \<open>Searching candidate paths\<close>

text \<open>The search returns the first candidate that exists, changes no file and prints
  nothing; it tests the candidates in order and stops at the first that exists.\<close>

lemma first_existing_eq:
  "first_existing env ps w =
     (find (\<lambda>p. files w p \<noteq> None) (map (expanduser env) ps),
      w\<lparr>trace := trace w @ map Stat (probes (files w) (map (expanduser env) ps))\<rparr>)"
proof (induction ps arbitrary: w)
  case Nil
  show ?case by simp
next
  case (Cons p ps)
  show ?case
    by (simp add: Let_def path_exists_def record_event_def Cons.IH)
qed

section \<open>The installer when conda is already there\<close>





section \<open>Shell integration\<close>

lemma str_in_init_block: "str_in line (content @ init_block line)"
proof -
  have "content @ init_block line
          = (content @ [newline] @ ''# Conda initialization'' @ [newline]) @ line @ [newline]"
    by (simp add: init_block_def)
  then show ?thesis by (simp only: str_in_append)
qed

lemma str_in_append_once: "str_in line (append_once line content)"
  by (simp add: append_once_def str_in_init_block)

lemma append_once_idem: "append_once line (append_once line content) = append_once line content"
  by (simp add: append_once_def str_in_init_block)

lemma add_to_rc_eq:
  "add_to_rc rc rc_name conda_sh w =
     (case files w rc of
        None \<Rightarrow> w\<lparr>trace := trace w @ [Stat rc]\<rparr>
      | Some content \<Rightarrow>
          if str_in (conda_init_line conda_sh) content then
            w\<lparr>trace := trace w @ [Stat rc, ReadFile rc]\<rparr>
          else
            w\<lparr>files := (files w)(rc \<mapsto> content @ init_block (conda_init_line conda_sh)),
              trace := trace w @ [Stat rc, ReadFile rc,
                         AppendFile rc (init_block (conda_init_line conda_sh))],
              printed := printed w @ [(Stdout, ''Added conda initialization to '' @ rc_name)]\<rparr>)"
  by (simp add: add_to_rc_def path_exists_def record_event_def append_file_def print_def Let_def
      split: option.splits)

lemma rc_paths_differ: "bashrc_path env \<noteq> zshrc_path env"
  by (simp add: bashrc_path_def zshrc_path_def pjoin_def)

lemma add_to_rc_files:
  "files (add_to_rc rc rc_name conda_sh w)
     = (files w)(rc := map_option (append_once (conda_init_line conda_sh)) (files w rc))"
  by (auto simp: add_to_rc_eq append_once_def split: option.splits)

lemma add_to_rc_quiet:
  assumes "\<forall>c. files w rc = Some c \<longrightarrow> str_in (conda_init_line conda_sh) c"
  shows "add_to_rc rc rc_name conda_sh w
           = w\<lparr>trace := trace w @ Stat rc # (if files w rc = None then [] else [ReadFile rc])\<rparr>"
  using assms by (auto simp: add_to_rc_eq split: option.splits)

lemma add_to_rc_trace:
  "\<exists>es. trace (add_to_rc rc rc_name conda_sh w) = trace w @ es
        \<and> (\<forall>e \<in> set es. e = Stat rc \<or> e = ReadFile rc
               \<or> (files w rc \<noteq> None \<and> (\<exists>s. e = AppendFile rc s)))"
  by (auto simp: add_to_rc_eq split: option.splits)

lemma ssi_present:
  assumes "files w (conda_sh_path p) \<noteq> None"
  shows "setup_shell_integration env (AsPath p) w =
           (Inr True,
            add_to_rc (zshrc_path env) ''.zshrc'' (conda_sh_path p)
              (add_to_rc (bashrc_path env) ''.bashrc'' (conda_sh_path p)
                 (record_event (Stat (conda_sh_path p)) w)))"
  using assms by (simp add: setup_shell_integration_def path_exists_def Let_def)

lemma ssi_absent:
  assumes "files w (conda_sh_path p) = None"
  shows "setup_shell_integration env (AsPath p) w =
           (Inr False,
            print ''Warning: conda.sh not found, shell integration may not work''
              (record_event (Stat (conda_sh_path p)) w))"
  using assms by (simp add: setup_shell_integration_def path_exists_def Let_def)

lemma ssi_files:
  assumes "files w (conda_sh_path p) \<noteq> None"
    and "setup_shell_integration env (AsPath p) w = (r, w1)"
  shows "files w1 =
           (\<lambda>q. if q = bashrc_path env \<or> q = zshrc_path env
                 then map_option (append_once (conda_init_line (conda_sh_path p))) (files w q)
                 else files w q)"
  using assms rc_paths_differ [of env]
  by (auto simp: ssi_present add_to_rc_files record_event_def)

text \<open>
  C4. Let \<open>conda.sh\<close> exist under the installation directory, so that the step reaches
  its appends, and run \<open>setup_shell_integration\<close> twice. After the first run each of the
  two startup files that exists holds \<open>append_once\<close> of its old content: the old content
  when the source line was a substring of it, else the old content with the block that
  holds the line appended once. The second run leaves every file as the first run left
  it and does nothing but test and read paths.
\<close>

theorem shell_integration_append_idempotent:
  assumes sh: "files w (conda_sh_path p) \<noteq> None"
    and first: "setup_shell_integration env (AsPath p) w = (r1, w1)"
    and second: "setup_shell_integration env (AsPath p) w1 = (r2, w2)"
    and rc: "rc = bashrc_path env \<or> rc = zshrc_path env"
  shows "files w1 rc = map_option (append_once (conda_init_line (conda_sh_path p))) (files w rc)
         \<and> files w2 = files w1
         \<and> (\<exists>es. trace w2 = trace w1 @ es \<and> \<not> list_ex changes_files es)"
proof -
  let ?line = "conda_init_line (conda_sh_path p)"
  let ?b = "bashrc_path env" and ?z = "zshrc_path env"
  have f1: "files w1 = (\<lambda>q. if q = ?b \<or> q = ?z
                 then map_option (append_once ?line) (files w q) else files w q)"
    by (rule ssi_files [OF sh first])
  then have sh1: "files w1 (conda_sh_path p) \<noteq> None"
    using sh by auto
  have f2: "files w2 = (\<lambda>q. if q = ?b \<or> q = ?z
                 then map_option (append_once ?line) (files w1 q) else files w1 q)"
    by (rule ssi_files [OF sh1 second])
  have same: "files w2 = files w1"
    unfolding f2 unfolding f1
    by (rule ext) (simp add: option.map_comp comp_def append_once_idem)
  have inb: "\<forall>c. files w1 ?b = Some c \<longrightarrow> str_in ?line c"
    unfolding f1 by (auto simp: str_in_append_once)
  have inz: "\<forall>c. files w1 ?z = Some c \<longrightarrow> str_in ?line c"
    unfolding f1 by (auto simp: str_in_append_once)
  let ?v = "record_event (Stat (conda_sh_path p)) w1"
  let ?vb = "add_to_rc ?b ''.bashrc'' (conda_sh_path p) ?v"
  have vb: "?vb = ?v\<lparr>trace := trace ?v @ Stat ?b
                      # (if files ?v ?b = None then [] else [ReadFile ?b])\<rparr>"
    using inb by (intro add_to_rc_quiet) (simp add: record_event_def)
  have "\<forall>c. files ?vb ?z = Some c \<longrightarrow> str_in ?line c"
    using inz by (subst vb) (simp add: record_event_def)
  then have vz: "add_to_rc ?z ''.zshrc'' (conda_sh_path p) ?vb
                  = ?vb\<lparr>trace := trace ?vb @ Stat ?z
                      # (if files ?vb ?z = None then [] else [ReadFile ?z])\<rparr>"
    by (rule add_to_rc_quiet)
  have w2: "w2 = add_to_rc ?z ''.zshrc'' (conda_sh_path p) ?vb"
    using second ssi_present [OF sh1, of env] by simp
  have "trace w2 = trace w1 @ (Stat (conda_sh_path p) # Stat ?b
           # (if files w1 ?b = None then [] else [ReadFile ?b])
           @ Stat ?z # (if files w1 ?z = None then [] else [ReadFile ?z]))"
    unfolding w2 by (subst vz, subst vb, subst vb) (simp add: record_event_def)
  then have quiet: "\<exists>es. trace w2 = trace w1 @ es \<and> \<not> list_ex changes_files es"
    by (intro exI [where x = "Stat (conda_sh_path p) # Stat ?b
           # (if files w1 ?b = None then [] else [ReadFile ?b])
           @ Stat ?z # (if files w1 ?z = None then [] else [ReadFile ?z])"]) simp
  from rc have "files w1 rc = map_option (append_once ?line) (files w rc)"
    unfolding f1 by auto
  with same quiet show ?thesis by blast
qed


text \<open>A \<open>.bashrc\<close> without the line gets the block once; the second run changes
  nothing.\<close>

theorem shell_integration_append_idempotent_witness:
  "files (snd (setup_shell_integration (demo_env succeeding) (AsPath ''/home/user/miniconda3'')
           rc_world)) ''/home/user/.bashrc''
     = Some (''export A=1'' @ init_block
               (conda_init_line ''/home/user/miniconda3/etc/profile.d/conda.sh''))
   \<and> files (snd (setup_shell_integration (demo_env succeeding) (AsPath ''/home/user/miniconda3'')
        (snd (setup_shell_integration (demo_env succeeding) (AsPath ''/home/user/miniconda3'')
           rc_world))))
     = files (snd (setup_shell_integration (demo_env succeeding) (AsPath ''/home/user/miniconda3'')
           rc_world))"
proof -
  let ?env = "demo_env succeeding" and ?p = "''/home/user/miniconda3''"
  let ?o1 = "setup_shell_integration ?env (AsPath ?p) rc_world"
  let ?o2 = "setup_shell_integration ?env (AsPath ?p) (snd ?o1)"
  have sh: "files rc_world (conda_sh_path ?p) \<noteq> None"
    by (simp add: rc_world_def demo_world_def conda_sh_path_def pjoin_def)
  have b: "bashrc_path ?env = ''/home/user/.bashrc''"
    by (simp add: bashrc_path_def path_home_def expanduser_def rstrip_slash_def demo_env_def
        pjoin_def)
  have line: "\<not> str_in (conda_init_line (conda_sh_path ?p)) ''export A=1''"
    by (simp add: conda_init_line_def)
  from shell_integration_append_idempotent
         [where env = ?env and p = ?p and w = rc_world and ?r1.0 = "fst ?o1" and ?w1.0 = "snd ?o1"
            and ?r2.0 = "fst ?o2" and ?w2.0 = "snd ?o2" and rc = "bashrc_path ?env", OF sh]
  have "files (snd ?o1) (bashrc_path ?env)
          = map_option (append_once (conda_init_line (conda_sh_path ?p)))
              (files rc_world (bashrc_path ?env))
        \<and> files (snd ?o2) = files (snd ?o1)"
    by simp
  then show ?thesis
    using line
    by (simp add: b append_once_def rc_world_def demo_world_def conda_sh_path_def pjoin_def)
qed

text \<open>
  C9. Whatever \<open>setup_shell_integration\<close> is given, the files that exist afterwards are
  those that existed before: it creates none. Every append it makes is to \<open>.bashrc\<close> or
  \<open>.zshrc\<close> and to one that existed before the call, and it writes no file anew. With
  neither startup file present it leaves every file as it was and only tests paths.
\<close>

theorem shell_integration_creates_no_file:
  assumes run: "setup_shell_integration env conda_path w = (r, w1)"
  shows "dom (files w1) = dom (files w)
         \<and> (\<exists>es. trace w1 = trace w @ es
               \<and> (\<forall>q s. AppendFile q s \<in> set es \<longrightarrow>
                     (q = bashrc_path env \<or> q = zshrc_path env) \<and> files w q \<noteq> None)
               \<and> (\<forall>q s. WriteFile q s \<notin> set es))
         \<and> (files w (bashrc_path env) = None \<and> files w (zshrc_path env) = None \<longrightarrow>
               files w1 = files w \<and> (\<exists>ps. trace w1 = trace w @ map Stat ps))"
proof (cases conda_path)
  case (AsStr s)
  with run have "w1 = w" by (simp add: setup_shell_integration_def)
  then show ?thesis by (auto intro: exI [where x = "[]"])
next
  case (AsPath p)
  show ?thesis
  proof (cases "files w (conda_sh_path p) = None")
    case True
    with run AsPath
    have w1: "w1 = print ''Warning: conda.sh not found, shell integration may not work''
              (record_event (Stat (conda_sh_path p)) w)"
      by (simp add: ssi_absent)
    have "trace w1 = trace w @ map Stat [conda_sh_path p]"
      by (simp add: w1 print_def record_event_def)
    moreover have "files w1 = files w" by (simp add: w1 print_def record_event_def)
    ultimately show ?thesis
      by (auto intro!: exI [where x = "map Stat [conda_sh_path p]"]
            exI [where x = "[conda_sh_path p]"])
  next
    case False
    let ?sh = "conda_sh_path p"
    let ?b = "bashrc_path env" and ?z = "zshrc_path env"
    let ?v = "record_event (Stat ?sh) w"
    let ?vb = "add_to_rc ?b ''.bashrc'' ?sh ?v"
    from run AsPath False have w1: "w1 = add_to_rc ?z ''.zshrc'' ?sh ?vb"
      by (simp add: ssi_present)
    have f1: "files w1 = (\<lambda>q. if q = ?b \<or> q = ?z
                 then map_option (append_once (conda_init_line ?sh)) (files w q) else files w q)"
      using run AsPath by (intro ssi_files [OF False]) simp
    have doms: "dom (files w1) = dom (files w)"
      unfolding f1 by (auto simp: dom_def split: if_splits)
    obtain eb where eb: "trace ?vb = trace ?v @ eb"
      "\<forall>e \<in> set eb. e = Stat ?b \<or> e = ReadFile ?b
               \<or> (files ?v ?b \<noteq> None \<and> (\<exists>s. e = AppendFile ?b s))"
      using add_to_rc_trace [of ?b "''.bashrc''" ?sh ?v] by blast
    obtain ez where ez: "trace w1 = trace ?vb @ ez"
      "\<forall>e \<in> set ez. e = Stat ?z \<or> e = ReadFile ?z
               \<or> (files ?vb ?z \<noteq> None \<and> (\<exists>s. e = AppendFile ?z s))"
      unfolding w1 using add_to_rc_trace [of ?z "''.zshrc''" ?sh ?vb] by blast
    have fz: "files ?vb ?z = files w ?z"
      using rc_paths_differ [of env] by (simp add: add_to_rc_files record_event_def)
    have fb: "files ?v ?b = files w ?b" by (simp add: record_event_def)
    let ?es = "Stat ?sh # eb @ ez"
    have tv: "trace ?v = trace w @ [Stat ?sh]" by (simp add: record_event_def)
    have tr: "trace w1 = trace w @ ?es"
      by (simp add: ez(1) eb(1) tv)
    have app: "\<forall>q s. AppendFile q s \<in> set ?es \<longrightarrow> (q = ?b \<or> q = ?z) \<and> files w q \<noteq> None"
      using eb(2) ez(2) fz fb by auto
    have wr: "\<forall>q s. WriteFile q s \<notin> set ?es"
      using eb(2) ez(2) by auto
    have none: "files w ?b = None \<and> files w ?z = None \<longrightarrow>
               files w1 = files w \<and> (\<exists>ps. trace w1 = trace w @ map Stat ps)"
    proof
      assume absent: "files w ?b = None \<and> files w ?z = None"
      then have "files w1 = files w" unfolding f1 by auto
      moreover have "?vb = ?v\<lparr>trace := trace ?v @ [Stat ?b]\<rparr>"
        using absent by (simp add: add_to_rc_eq record_event_def)
      then have "w1 = ?v\<lparr>trace := trace ?v @ [Stat ?b, Stat ?z]\<rparr>"
        using absent unfolding w1 by (simp add: add_to_rc_eq record_event_def)
      then have "trace w1 = trace w @ map Stat [?sh, ?b, ?z]"
        by (simp add: record_event_def)
      ultimately show "files w1 = files w \<and> (\<exists>ps. trace w1 = trace w @ map Stat ps)"
        by blast
    qed
    from doms tr app wr none show ?thesis by blast
  qed
qed

text \<open>After an installation into \<open>~/miniconda3\<close> with neither startup file on disk, the
  step leaves neither behind.\<close>

theorem shell_integration_creates_no_file_witness:
  "files fresh_world (bashrc_path (demo_env succeeding)) = None
   \<and> files fresh_world (zshrc_path (demo_env succeeding)) = None
   \<and> dom (files (snd (setup_shell_integration (demo_env succeeding)
                         (AsPath ''/home/user/miniconda3'') fresh_world)))
       = dom (files fresh_world)
   \<and> files (snd (setup_shell_integration (demo_env succeeding)
                   (AsPath ''/home/user/miniconda3'') fresh_world))
       = files fresh_world
   \<and> (\<exists>ps. trace (snd (setup_shell_integration (demo_env succeeding)
                          (AsPath ''/home/user/miniconda3'') fresh_world))
              = trace fresh_world @ map Stat ps)"
proof -
  let ?env = "demo_env succeeding"
  let ?o = "setup_shell_integration ?env (AsPath ''/home/user/miniconda3'') fresh_world"
  have b: "files fresh_world (bashrc_path ?env) = None"
    by (simp add: fresh_world_def demo_world_def bashrc_path_def path_home_def expanduser_def
        rstrip_slash_def demo_env_def pjoin_def)
  have z: "files fresh_world (zshrc_path ?env) = None"
    by (simp add: fresh_world_def demo_world_def zshrc_path_def path_home_def expanduser_def
        rstrip_slash_def demo_env_def pjoin_def)
  have "?o = (fst ?o, snd ?o)" by simp
  from shell_integration_creates_no_file [OF this] b z
  show ?thesis by blast
qed


section \<open>Environment setup\<close>

lemma probes_none: "\<forall>p \<in> set ps. f p = None \<Longrightarrow> probes f ps = ps"
  by (induction ps) simp_all

lemma find_none: "\<forall>p \<in> set ps. f p = None \<Longrightarrow> find (\<lambda>p. f p \<noteq> None) ps = None"
  by (simp add: find_None_iff)

lemma commands_run_append: "commands_run (xs @ ys) = commands_run xs @ commands_run ys"
  by (induction xs rule: commands_run.induct) simp_all

lemma commands_run_stats: "commands_run (map Stat ps) = []"
  by (induction ps) simp_all

lemma echo_output_keeps [simp]:
  "files (echo_output r w) = files w" "trace (echo_output r w) = trace w"
  by (simp_all add: echo_output_def print_def eprint_def)

lemma script_lines:
  "str_in (''source '' @ cp @ [newline]) (script_content env_name cp)"
  "str_in (''conda activate '' @ env_name @ [newline]) (script_content env_name cp)"
proof -
  have "script_content env_name cp =
          (''#!/bin/bash'' @ [newline] @ [newline]
            @ ''# Auto-generated activation script for '' @ env_name @ [newline]
            @ ''# Generated by setup_conda.py'' @ [newline] @ [newline]
            @ ''# Source conda'' @ [newline])
          @ (''source '' @ cp @ [newline])
          @ ([newline] @ ''# Activate environment'' @ [newline]
             @ ''conda activate '' @ env_name @ [newline] @ [newline]
             @ ''echo '' @ [dquote] @ ''Environment '' @ [squote] @ env_name @ [squote]
             @ '' activated!'' @ [dquote] @ [newline]
             @ ''echo '' @ [dquote] @ ''Python version: $(python --version)'' @ [dquote] @ [newline]
             @ ''echo '' @ [dquote] @ ''PyTorch version: $(python -c '' @ [squote]
             @ ''import torch; print(torch.__version__)'' @ [squote]
             @ '' 2>/dev/null || echo '' @ [squote] @ ''PyTorch not installed'' @ [squote]
             @ '')'' @ [dquote] @ [newline])"
    by (simp add: script_content_def)
  then show "str_in (''source '' @ cp @ [newline]) (script_content env_name cp)"
    by (simp only: str_in_append)
  have "script_content env_name cp =
          (''#!/bin/bash'' @ [newline] @ [newline]
            @ ''# Auto-generated activation script for '' @ env_name @ [newline]
            @ ''# Generated by setup_conda.py'' @ [newline] @ [newline]
            @ ''# Source conda'' @ [newline]
            @ ''source '' @ cp @ [newline]
            @ [newline] @ ''# Activate environment'' @ [newline])
          @ (''conda activate '' @ env_name @ [newline])
          @ ([newline]
             @ ''echo '' @ [dquote] @ ''Environment '' @ [squote] @ env_name @ [squote]
             @ '' activated!'' @ [dquote] @ [newline]
             @ ''echo '' @ [dquote] @ ''Python version: $(python --version)'' @ [dquote] @ [newline]
             @ ''echo '' @ [dquote] @ ''PyTorch version: $(python -c '' @ [squote]
             @ ''import torch; print(torch.__version__)'' @ [squote]
             @ '' 2>/dev/null || echo '' @ [squote] @ ''PyTorch not installed'' @ [squote]
             @ '')'' @ [dquote] @ [newline])"
    by (simp add: script_content_def)
  then show "str_in (''conda activate '' @ env_name @ [newline]) (script_content env_name cp)"
    by (simp only: str_in_append)
qed

lemma setup_environment_envA:
  assumes cfg: "map_of (environments (config self)) ''envA'' = Some envA_config"
    and c1: "spawn env (Shell ''conda create -n envA python=3.10 -y'') None (files w)
               = (Exited r1, f1)" "returncode r1 = 0"
    and sh1: "find (\<lambda>p. f1 p \<noteq> None) (map (expanduser env) setup_possible_paths) = Some cp1"
    and c2: "spawn env (Shell ''conda install -n envA numpy -c conda-forge -y'') None f1
               = (Exited r2, f2)" "returncode r2 = 0"
    and c3: "spawn env (Shell ''conda run -n envA pip install requests'') None f2
               = (Exited r3, f3)" "returncode r3 = 0"
  shows "\<exists>w'. setup_environment env self ''envA'' w = (Inr (), w') \<and> files w' = f3
           \<and> trace w' = trace w
                @ Run (Shell ''conda create -n envA python=3.10 -y'')
                # map Stat (probes f1 (map (expanduser env) setup_possible_paths))
                @ [Run (Shell ''conda install -n envA numpy -c conda-forge -y''),
                   Run (Shell ''conda run -n envA pip install requests'')]"
  using assms
  by (simp add: setup_environment_def run_command_def subprocess_run_def
      CondaSetup_find_conda_path_def first_existing_eq
      install_conda_packages_def install_pip_packages_def
      create_cmd_def conda_install_cmd_def pip_install_cmd_def envA_config_def
      print_def record_event_def Let_def del: not_None_eq)


text \<open>
  C5. For a name that is not a key of the environments mapping, \<open>setup_environment\<close>
  raises \<open>UnknownEnvironment\<close> and returns the world as it was given: no command was
  run, no path tested, nothing printed. So does the body of the \<open>setup\<close> action.
\<close>

theorem setup_unknown_environment:
  assumes "env_name \<notin> fst ` set (environments (config self))"
  shows "setup_environment env self env_name w = (Inl (UnknownEnvironment env_name), w)
         \<and> setup_action env self env_name w = (Inl (UnknownEnvironment env_name), w)"
proof -
  from assms have "map_of (environments (config self)) env_name = None"
    by (simp add: map_of_eq_None_iff)
  then show ?thesis
    by (simp add: setup_environment_def setup_action_def)
qed

theorem setup_unknown_environment_witness:
  "setup_environment (demo_env succeeding) envA_setup ''envB'' (demo_world Map.empty)
     = (Inl (ValueError (''Environment '' @ [squote] @ ''envB'' @ [squote]
                           @ '' not found in configuration'')), demo_world Map.empty)
   \<and> trace (snd (setup_action (demo_env succeeding) envA_setup ''envB'' (demo_world Map.empty))) = []"
proof -
  have "''envB'' \<notin> fst ` set (environments (config envA_setup))"
    by (simp add: envA_setup_def)
  from setup_unknown_environment [OF this, of "demo_env succeeding" "demo_world Map.empty"]
  show ?thesis by (simp add: UnknownEnvironment_def demo_world_def)
qed

text \<open>
  C10. If none of the four candidate paths of \<open>CondaSetup.find_conda_path\<close> exists,
  \<open>create_activation_script\<close> raises \<open>RuntimeError("Conda not found")\<close>, whatever the
  outside is like (so also where \<open>conda\<close> is callable): it has tested the four paths
  and done nothing else, so no script is written.
\<close>

theorem create_script_needs_conda_sh:
  assumes "\<forall>p \<in> set setup_possible_paths. files w (expanduser env p) = None"
  shows "create_activation_script env env_name w =
           (Inl (RuntimeError ''Conda not found''),
            w\<lparr>trace := trace w @ map Stat (map (expanduser env) setup_possible_paths)\<rparr>)"
proof -
  from assms have none: "\<forall>p \<in> set (map (expanduser env) setup_possible_paths). files w p = None"
    by simp
  have "first_existing env setup_possible_paths w =
          (None, w\<lparr>trace := trace w @ map Stat (map (expanduser env) setup_possible_paths)\<rparr>)"
    unfolding first_existing_eq find_none [OF none] probes_none [OF none] ..
  then show ?thesis
    by (simp add: create_activation_script_def CondaSetup_find_conda_path_def)
qed

text \<open>A state where the presence check of \<open>main\<close> succeeds and the script is refused
  all the same.\<close>

theorem create_script_needs_conda_sh_witness:
  "CondaSetup_check_conda_installed (demo_env succeeding) (demo_world Map.empty)
     = (Inr True, \<lparr>files = Map.empty, trace = [Run (Shell ''conda --version'')],
                  printed = [(Stdout, ''Running: conda --version'')]\<rparr>)
   \<and> create_activation_script (demo_env succeeding) ''torchpy310''
        \<lparr>files = Map.empty, trace = [Run (Shell ''conda --version'')],
         printed = [(Stdout, ''Running: conda --version'')]\<rparr>
     = (Inl (RuntimeError ''Conda not found''),
        \<lparr>files = Map.empty,
         trace = [Run (Shell ''conda --version''),
                  Stat ''/home/user/miniconda3/etc/profile.d/conda.sh'',
                  Stat ''/home/user/anaconda3/etc/profile.d/conda.sh'',
                  Stat ''/opt/conda/etc/profile.d/conda.sh'',
                  Stat ''/usr/local/conda/etc/profile.d/conda.sh''],
         printed = [(Stdout, ''Running: conda --version'')]\<rparr>)"
proof -
  let ?w = "\<lparr>files = Map.empty, trace = [Run (Shell ''conda --version'')],
         printed = [(Stdout, ''Running: conda --version'')]\<rparr>"
  have "\<forall>p \<in> set setup_possible_paths. files ?w (expanduser (demo_env succeeding) p) = None"
    by simp
  from create_script_needs_conda_sh [OF this, of "''torchpy310''"]
  show ?thesis
    by (simp add: CondaSetup_check_conda_installed_def run_command_def echo_output_def
        subprocess_run_def
        demo_env_def succeeding_def demo_world_def print_def record_event_def
        setup_possible_paths_def expanduser_def rstrip_slash_def)
qed

text \<open>
  C2, as the code has it. Let the configuration hold \<open>envA\<close> as in the scenario; let the
  create command, the conda install command and the pip install command each exit with
  status 0, leaving the files \<open>f1\<close>, \<open>f2\<close>, \<open>f3\<close>; and let \<open>conda.sh\<close> be found at a
  candidate path after the create command, and at \<open>cp\<close> after the pip command. Then the
  \<open>setup\<close> action succeeds; the external commands it issues are exactly those three, in
  that order and with those literal texts; after them the activation script is written
  and made executable; and its content has the line \<open>source cp\<close> and the line
  \<open>conda activate envA\<close>.
\<close>

theorem setup_envA_scenario:
  assumes cfg: "map_of (environments (config self)) ''envA'' = Some envA_config"
    and c1: "spawn env (Shell ''conda create -n envA python=3.10 -y'') None (files w)
               = (Exited r1, f1)" "returncode r1 = 0"
    and sh1: "find (\<lambda>p. f1 p \<noteq> None) (map (expanduser env) setup_possible_paths) = Some cp1"
    and c2: "spawn env (Shell ''conda install -n envA numpy -c conda-forge -y'') None f1
               = (Exited r2, f2)" "returncode r2 = 0"
    and c3: "spawn env (Shell ''conda run -n envA pip install requests'') None f2
               = (Exited r3, f3)" "returncode r3 = 0"
    and sh3: "find (\<lambda>p. f3 p \<noteq> None) (map (expanduser env) setup_possible_paths) = Some cp"
  shows "\<exists>w'. setup_action env self ''envA'' w = (Inr (), w')
           \<and> commands_run (trace w') = commands_run (trace w)
                @ [Shell ''conda create -n envA python=3.10 -y'',
                   Shell ''conda install -n envA numpy -c conda-forge -y'',
                   Shell ''conda run -n envA pip install requests'']
           \<and> trace w' = trace w
                @ Run (Shell ''conda create -n envA python=3.10 -y'')
                # map Stat (probes f1 (map (expanduser env) setup_possible_paths))
                @ [Run (Shell ''conda install -n envA numpy -c conda-forge -y''),
                   Run (Shell ''conda run -n envA pip install requests'')]
                @ map Stat (probes f3 (map (expanduser env) setup_possible_paths))
                @ [WriteFile (script_path env ''envA'') (script_content ''envA'' cp),
                   Chmod (script_path env ''envA'') 493]
           \<and> files w' = f3(script_path env ''envA'' \<mapsto> script_content ''envA'' cp)
           \<and> str_in (''source '' @ cp @ [newline]) (script_content ''envA'' cp)
           \<and> str_in (''conda activate envA'' @ [newline]) (script_content ''envA'' cp)"
proof -
  let ?C = "map (expanduser env) setup_possible_paths"
  let ?sp = "script_path env ''envA''" and ?sc = "script_content ''envA'' cp"
  from setup_environment_envA [OF cfg c1 sh1 c2 c3] obtain w1 where
    w1: "setup_environment env self ''envA'' w = (Inr (), w1)" "files w1 = f3"
        "trace w1 = trace w
                @ Run (Shell ''conda create -n envA python=3.10 -y'')
                # map Stat (probes f1 ?C)
                @ [Run (Shell ''conda install -n envA numpy -c conda-forge -y''),
                   Run (Shell ''conda run -n envA pip install requests'')]"
    by blast
  let ?w' = "print (''Activation script created: '' @ ?sp)
              (record_event (Chmod ?sp 493)
                (write_file ?sp ?sc (w1\<lparr>trace := trace w1 @ map Stat (probes f3 ?C)\<rparr>)))"
  have "create_activation_script env ''envA'' w1 = (Inr (), ?w')"
    by (simp add: create_activation_script_def CondaSetup_find_conda_path_def first_existing_eq
        w1(2) sh3 Let_def del: not_None_eq)
  then have run: "setup_action env self ''envA'' w = (Inr (), ?w')"
    by (simp add: setup_action_def w1(1))
  have tr: "trace ?w' = trace w
                @ Run (Shell ''conda create -n envA python=3.10 -y'')
                # map Stat (probes f1 ?C)
                @ [Run (Shell ''conda install -n envA numpy -c conda-forge -y''),
                   Run (Shell ''conda run -n envA pip install requests'')]
                @ map Stat (probes f3 ?C)
                @ [WriteFile ?sp ?sc, Chmod ?sp 493]"
    by (simp add: print_def record_event_def write_file_def w1(3))
  have cr: "commands_run (trace ?w') = commands_run (trace w)
                @ [Shell ''conda create -n envA python=3.10 -y'',
                   Shell ''conda install -n envA numpy -c conda-forge -y'',
                   Shell ''conda run -n envA pip install requests'']"
    unfolding tr by (simp add: commands_run_append commands_run_stats)
  have fl: "files ?w' = f3(?sp \<mapsto> ?sc)"
    by (simp add: print_def record_event_def write_file_def w1(2))
  have l1: "str_in (''source '' @ cp @ [newline]) ?sc" by (rule script_lines(1))
  have l2: "str_in (''conda activate envA'' @ [newline]) ?sc"
    using script_lines(2) [of "''envA''" cp] by simp
  from run cr tr fl l1 l2 show ?thesis by blast
qed

theorem setup_envA_scenario_witness:
  "\<exists>w'. setup_action (demo_env succeeding) envA_setup ''envA'' conda_world = (Inr (), w')
           \<and> commands_run (trace w') = commands_run (trace conda_world)
                @ [Shell ''conda create -n envA python=3.10 -y'',
                   Shell ''conda install -n envA numpy -c conda-forge -y'',
                   Shell ''conda run -n envA pip install requests'']
           \<and> trace w' = trace conda_world
                @ Run (Shell ''conda create -n envA python=3.10 -y'')
                # map Stat (probes (files conda_world)
                           (map (expanduser (demo_env succeeding)) setup_possible_paths))
                @ [Run (Shell ''conda install -n envA numpy -c conda-forge -y''),
                   Run (Shell ''conda run -n envA pip install requests'')]
                @ map Stat (probes (files conda_world)
                           (map (expanduser (demo_env succeeding)) setup_possible_paths))
                @ [WriteFile (script_path (demo_env succeeding) ''envA'')
                     (script_content ''envA'' ''/opt/conda/etc/profile.d/conda.sh''),
                   Chmod (script_path (demo_env succeeding) ''envA'') 493]
           \<and> files w' = (files conda_world)(script_path (demo_env succeeding) ''envA'' \<mapsto>
                           script_content ''envA'' ''/opt/conda/etc/profile.d/conda.sh'')
           \<and> str_in (''source '' @ ''/opt/conda/etc/profile.d/conda.sh'' @ [newline])
               (script_content ''envA'' ''/opt/conda/etc/profile.d/conda.sh'')
           \<and> str_in (''conda activate envA'' @ [newline])
               (script_content ''envA'' ''/opt/conda/etc/profile.d/conda.sh'')"
  by (rule setup_envA_scenario
        [where ?r1.0 = "\<lparr>returncode = 0, stdout = [], stderr = []\<rparr>"
           and ?r2.0 = "\<lparr>returncode = 0, stdout = [], stderr = []\<rparr>"
           and ?r3.0 = "\<lparr>returncode = 0, stdout = [], stderr = []\<rparr>"
           and ?f2.0 = "files conda_world"
           and ?cp1.0 = "''/opt/conda/etc/profile.d/conda.sh''"])
     (simp_all add: envA_setup_def demo_env_def succeeding_def conda_world_def demo_world_def
        setup_possible_paths_def expanduser_def rstrip_slash_def)

text \<open>
  The scenario as the specification words it fails where every command succeeds and no
  \<open>conda.sh\<close> is at a candidate path: the create command is the only command issued,
  \<open>setup_environment\<close> raises, and no script is written.
\<close>

theorem setup_envA_scenario_counterexample:
  "fst (setup_action (demo_env succeeding) envA_setup ''envA'' (demo_world Map.empty))
     = Inl (RuntimeError ''Conda not found. Please install conda first.'')
   \<and> commands_run (trace (snd (setup_action (demo_env succeeding) envA_setup ''envA''
                                  (demo_world Map.empty))))
     = [Shell ''conda create -n envA python=3.10 -y'']
   \<and> files (snd (setup_action (demo_env succeeding) envA_setup ''envA'' (demo_world Map.empty)))
     = Map.empty"
  by (simp add: setup_action_def setup_environment_def run_command_def subprocess_run_def
      CondaSetup_find_conda_path_def first_existing_eq
      create_cmd_def envA_setup_def envA_config_def
      demo_env_def succeeding_def demo_world_def
      setup_possible_paths_def expanduser_def rstrip_slash_def
      print_def record_event_def Let_def)


section \<open>Failures that leave main\<close>

text \<open>
  C8 fails on the code. With \<open>conda\<close> callable and no \<open>conda.sh\<close> at a candidate path,
  the \<open>create-script\<close> action ends in a \<open>RuntimeError\<close> that no handler catches: \<open>main\<close>
  calls \<open>create_activation_script\<close> outside any \<open>try\<close>, prints no diagnostic of its own
  and never reaches \<open>sys.exit(1)\<close>. The \<open>setup\<close> action wraps the same call in
  \<open>try ... except Exception\<close>.
\<close>

theorem create_script_failure_uncaught:
  "setup_conda_main (demo_env succeeding) CreateScript ''torchpy310''
      ''config/environments.json'' (demo_world Map.empty)
     = (Uncaught (RuntimeError ''Conda not found''),
        \<lparr>files = Map.empty,
         trace = [Stat ''/repo/config/environments.json'',
                  Run (Shell ''conda --version''),
                  Stat ''/home/user/miniconda3/etc/profile.d/conda.sh'',
                  Stat ''/home/user/anaconda3/etc/profile.d/conda.sh'',
                  Stat ''/opt/conda/etc/profile.d/conda.sh'',
                  Stat ''/usr/local/conda/etc/profile.d/conda.sh''],
         printed = [(Stdout, ''Running: conda --version'')]\<rparr>)"
  by (simp add: setup_conda_main_def CondaSetup_init_def load_config_def
      CondaSetup_check_conda_installed_def run_command_def echo_output_def
      subprocess_run_def
      create_activation_script_def CondaSetup_find_conda_path_def first_existing_eq
      path_exists_def pjoin_def
      demo_env_def succeeding_def demo_world_def print_def record_event_def
      setup_possible_paths_def expanduser_def rstrip_slash_def)


section \<open>The requirements installer\<close>

lemma resolve_python_eq:
  "resolve_python env python_arg w =
     (chosen_python env python_arg (files w),
      w\<lparr>trace := trace w @ (case python_arg of Some p \<Rightarrow> []
                 | None \<Rightarrow> map Stat (probes (files w) (interpreter_candidates env)))\<rparr>)"
  by (simp add: resolve_python_def chosen_python_def interpreter_candidates_def first_existing_eq
      split: option.splits del: not_None_eq)

lemma expanduser_twice:
  assumes "\<not> prefix ''~'' (home env)"
  shows "expanduser env (expanduser env p) = expanduser env p"
proof (cases "p = ''~'' \<or> take 2 p = ''~/''")
  case False
  then show ?thesis by (simp add: expanduser_def)
next
  case True
  let ?h = "rstrip_slash (home env)"
  have h: "\<not> prefix ''~'' ?h"
  proof
    assume "prefix ''~'' ?h"
    then obtain t where t: "?h = CHR ''~'' # t" by (auto simp: prefix_def)
    have "prefix ?h (home env)"
      unfolding rstrip_slash_def
      by (metis append_take_drop_id prefixI rev_append rev_rev_ident takeWhile_dropWhile_id)
    with t assms show False by (auto simp: prefix_def)
  qed
  let ?r = "?h @ drop 1 p"
  from True have d: "drop 1 p = [] \<or> (\<exists>t. drop 1 p = CHR ''/'' # t)"
    by (cases p; cases "tl p") auto
  have "\<not> prefix ''~'' ?r"
    using h d by (cases ?h) (auto simp: prefix_def)
  moreover have "\<not> prefix ''~'' ''/''" by simp
  ultimately have "\<not> prefix ''~'' (expanduser env p)"
    using True by (simp add: expanduser_def Let_def)
  then have "expanduser env p \<noteq> ''~'' \<and> take 2 (expanduser env p) \<noteq> ''~/''"
    by (cases "expanduser env p") (auto simp: prefix_def)
  then show ?thesis by (simp add: expanduser_def [of env "expanduser env p"])
qed

lemma interpreter_candidates_home:
  assumes "\<not> prefix ''~'' (home env)"
  shows "interpreter_candidates env =
           [rstrip_slash (home env) @ ''/miniconda3/envs/torchpy310/bin/python'',
            rstrip_slash (home env) @ ''/anaconda3/envs/torchpy310/bin/python'',
            ''/opt/conda/envs/torchpy310/bin/python'']"
  by (simp add: interpreter_candidates_def conda_paths_def expanduser_twice [OF assms])
     (simp add: expanduser_def)

lemma install_requirements_missing:
  assumes "files w requirements_file = None"
  shows "install_requirements env requirements_file python_arg w =
           (Inr False,
            w\<lparr>trace := trace w @ [Stat requirements_file],
              printed := printed w @ [(Stdout, ''Error: '' @ requirements_file @ '' not found!'')]\<rparr>)"
  using assms
  by (simp add: install_requirements_def path_exists_def record_event_def print_def)

lemma install_requirements_trace:
  assumes "files w requirements_file \<noteq> None"
  shows "trace (snd (install_requirements env requirements_file python_arg w)) =
           trace w @ Stat requirements_file
             # (case python_arg of Some p \<Rightarrow> []
                | None \<Rightarrow> map Stat (probes (files w) (interpreter_candidates env)))
             @ [Run (pip_cmd (chosen_python env python_arg (files w)) requirements_file)]"
  using assms
  by (simp add: install_requirements_def path_exists_def resolve_python_eq subprocess_run_def
      record_event_def print_def Let_def split: prod.splits proc.splits option.splits)


text \<open>
  C6. For a manifest path that does not exist, \<open>install_requirements\<close> reports the
  failure (it prints that the file was not found and returns \<open>False\<close>, and \<open>main\<close> exits
  with status 1) having done one thing only: the test of the manifest path. No
  interpreter candidate is tested and no subprocess is run.
\<close>

theorem missing_manifest_fails_first:
  assumes "files w requirements_file = None"
  shows "install_requirements env requirements_file python_arg w =
           (Inr False,
            w\<lparr>trace := trace w @ [Stat requirements_file],
              printed := printed w
                @ [(Stdout, ''Error: '' @ requirements_file @ '' not found!'')]\<rparr>)
         \<and> install_requirements_main env requirements_file python_arg w =
           (Exit 1,
            w\<lparr>trace := trace w @ [Stat requirements_file],
              printed := printed w
                @ [(Stdout, ''Error: '' @ requirements_file @ '' not found!''),
                   (Stdout, [newline] @ cross_mark @ '' Installation failed!'')]\<rparr>)"
  by (simp add: install_requirements_missing [OF assms] install_requirements_main_def print_def)

theorem missing_manifest_fails_first_witness:
  "install_requirements (demo_env succeeding) ''requirements.txt'' None conda_world =
           (Inr False,
            conda_world\<lparr>trace := trace conda_world @ [Stat ''requirements.txt''],
              printed := printed conda_world
                @ [(Stdout, ''Error: '' @ ''requirements.txt'' @ '' not found!'')]\<rparr>)
   \<and> install_requirements_main (demo_env succeeding) ''requirements.txt'' None conda_world =
           (Exit 1,
            conda_world\<lparr>trace := trace conda_world @ [Stat ''requirements.txt''],
              printed := printed conda_world
                @ [(Stdout, ''Error: '' @ ''requirements.txt'' @ '' not found!''),
                   (Stdout, [newline] @ cross_mark @ '' Installation failed!'')]\<rparr>)"
  by (rule missing_manifest_fails_first) (simp add: conda_world_def demo_world_def)

text \<open>
  C7. The interpreter is \<open>chosen_python\<close>: the path given, else the first of the three
  candidates that exists, else \<open>python3\<close>. When the manifest exists, what
  \<open>install_requirements\<close> does is: test the manifest; test the candidates in order up to
  the first that exists, or none of them when a path is given; run \<open>pip install -r\<close>
  with the interpreter chosen. For a home directory that does not itself start with a
  tilde, the candidates are \<open>~/miniconda3/envs/torchpy310/bin/python\<close>,
  \<open>~/anaconda3/envs/torchpy310/bin/python\<close> and \<open>/opt/conda/envs/torchpy310/bin/python\<close>
  with the tilde expanded.
\<close>

theorem interpreter_resolution:
  "fst (resolve_python env python_arg w) = chosen_python env python_arg (files w)
   \<and> (files w requirements_file \<noteq> None \<longrightarrow>
        trace (snd (install_requirements env requirements_file python_arg w)) =
           trace w @ Stat requirements_file
             # (case python_arg of Some p \<Rightarrow> []
                | None \<Rightarrow> map Stat (probes (files w) (interpreter_candidates env)))
             @ [Run (pip_cmd (chosen_python env python_arg (files w)) requirements_file)])
   \<and> (\<not> prefix ''~'' (home env) \<longrightarrow>
        interpreter_candidates env =
           [rstrip_slash (home env) @ ''/miniconda3/envs/torchpy310/bin/python'',
            rstrip_slash (home env) @ ''/anaconda3/envs/torchpy310/bin/python'',
            ''/opt/conda/envs/torchpy310/bin/python''])"
  using install_requirements_trace interpreter_candidates_home
  by (simp add: resolve_python_eq)

text \<open>With the second and third candidates on disk the second is chosen and the third
  is not tested; with none, \<open>python3\<close>; with a path given, no candidate is tested.\<close>

theorem interpreter_resolution_witness:
  "fst (resolve_python (demo_env succeeding) None req_world)
      = ''/home/user/anaconda3/envs/torchpy310/bin/python''
   \<and> fst (resolve_python (demo_env succeeding) None (demo_world [''requirements.txt'' \<mapsto> ''numpy'']))
      = ''python3''
   \<and> trace (snd (install_requirements (demo_env succeeding) ''requirements.txt'' None req_world))
      = [Stat ''requirements.txt'',
         Stat ''/home/user/miniconda3/envs/torchpy310/bin/python'',
         Stat ''/home/user/anaconda3/envs/torchpy310/bin/python'',
         Run (Argv [''/home/user/anaconda3/envs/torchpy310/bin/python'',
                    ''-m'', ''pip'', ''install'', ''-r'', ''requirements.txt''])]
   \<and> trace (snd (install_requirements (demo_env succeeding) ''requirements.txt''
                    (Some ''/usr/bin/python3.11'') req_world))
      = [Stat ''requirements.txt'',
         Run (Argv [''/usr/bin/python3.11'', ''-m'', ''pip'', ''install'', ''-r'',
                    ''requirements.txt''])]
   \<and> interpreter_candidates (demo_env succeeding) =
           [''/home/user/miniconda3/envs/torchpy310/bin/python'',
            ''/home/user/anaconda3/envs/torchpy310/bin/python'',
            ''/opt/conda/envs/torchpy310/bin/python'']"
proof -
  let ?env = "demo_env succeeding"
  have home: "\<not> prefix ''~'' (home ?env)" by (simp add: demo_env_def)
  have req: "files req_world ''requirements.txt'' \<noteq> None"
    by (simp add: req_world_def demo_world_def)
  have cands: "interpreter_candidates ?env =
           [''/home/user/miniconda3/envs/torchpy310/bin/python'',
            ''/home/user/anaconda3/envs/torchpy310/bin/python'',
            ''/opt/conda/envs/torchpy310/bin/python'']"
    using interpreter_resolution [of ?env None req_world "''requirements.txt''"] home
    by (simp add: demo_env_def rstrip_slash_def)
  from interpreter_resolution [of ?env None req_world "''requirements.txt''"]
       interpreter_resolution [of ?env None "demo_world [''requirements.txt'' \<mapsto> ''numpy'']"
          "''requirements.txt''"]
       interpreter_resolution [of ?env "Some ''/usr/bin/python3.11''" req_world
          "''requirements.txt''"]
       req cands
  show ?thesis
    by (simp add: chosen_python_def pip_cmd_def req_world_def demo_world_def)
qed

end
